theory Spec2Isabelle
  imports Complex_Main "HOL-Library.Word"
begin

unbundle bit_operations_syntax

section \<open>The MAX17262 fuel-gauge driver (scripts/libraries/max17262.py)\<close>

text \<open>
  The driver talks to the gauge over an I2C object handed to its constructor. The model
  keeps the state of whatever is behind that object abstract (a type variable \<open>'s\<close>),
  threads it through every call, and records each call the driver makes in a trace.
  Python integers are \<open>int\<close>; bytes are 8-bit words; an exception is the left summand of
  a result. Python floats are modelled by exact rationals: the constants of the module
  are the decimal literals of the source, and rounding is outside the model.
\<close>

subsection \<open>Exceptions, bytes and the struct codec\<close>

type_synonym byte = "8 word"

datatype exn = OSError nat | StructError

text \<open>
  The two format strings the driver uses: \<open>"<H"\<close> (little-endian unsigned 16 bit) and
  \<open>"<h"\<close> (little-endian signed 16 bit). \<open>pack\<close> follows the \<open>struct\<close> module of the
  Python library: a value outside the range of the format raises \<open>struct.error\<close>.
  \<open>unpack\<close> raises it when the buffer is not exactly two bytes long.
\<close>

datatype fmt = LE_H | LE_h

fun pack :: "fmt \<Rightarrow> int \<Rightarrow> exn + byte list" where
  "pack LE_H v =
     (if 0 \<le> v \<and> v \<le> 65535 then Inr [word_of_int v, word_of_int (v div 256)]
      else Inl StructError)"
| "pack LE_h v =
     (if - 32768 \<le> v \<and> v \<le> 32767 then Inr [word_of_int v, word_of_int (v div 256)]
      else Inl StructError)"

fun unpack :: "fmt \<Rightarrow> byte list \<Rightarrow> exn + int" where
  "unpack LE_H [b0, b1] = Inr (uint b0 + 256 * uint b1)"
| "unpack LE_h [b0, b1] =
     (let u = uint b0 + 256 * uint b1 in Inr (if 32768 \<le> u then u - 65536 else u))"
| "unpack f data = Inl StructError"

text \<open>\<open>int(x)\<close> on a float truncates toward zero.\<close>

definition int_py :: "rat \<Rightarrow> int" where
  "int_py x = (if 0 \<le> x then \<lfloor>x\<rfloor> else \<lceil>x\<rceil>)"

subsection \<open>Module constants\<close>

definition DEVICE_ADDRESS :: nat where "DEVICE_ADDRESS = 0x36"

definition REG_DesignCap :: nat where "REG_DesignCap = 0x18"
definition REG_ModelCfg :: nat where "REG_ModelCfg = 0xDB"
definition REG_IChgTerm :: nat where "REG_IChgTerm = 0x1E"
definition REG_FStat :: nat where "REG_FStat = 0x3D"

definition REG_RepCap :: nat where "REG_RepCap = 0x05"
definition REG_RepSOC :: nat where "REG_RepSOC = 0x06"
definition REG_TTE :: nat where "REG_TTE = 0x11"
definition REG_TTF :: nat where "REG_TTF = 0x20"
definition REG_VCell :: nat where "REG_VCell = 0x09"
definition REG_Current :: nat where "REG_Current = 0x0A"
definition REG_DieTemp :: nat where "REG_DieTemp = 0x34"

definition LSB_PERCENTAGE :: rat where "LSB_PERCENTAGE = 1 / 256"
definition LSB_VOLTAGE :: rat where "LSB_VOLTAGE = (125 / 100) / 16"
definition LSB_TEMPERATURE :: rat where "LSB_TEMPERATURE = 1 / 256"
definition LSB_TIME :: rat where "LSB_TIME = 5625 / 1000"
definition LSB_CAPACITY_R :: rat where "LSB_CAPACITY_R = 5 / 10"
definition LSB_CAPACITY_H :: rat where "LSB_CAPACITY_H = 1667 / 10000"
definition LSB_CURRENT_R :: rat where "LSB_CURRENT_R = 15625 / 100"
definition LSB_CURRENT_H :: rat where "LSB_CURRENT_H = 52083 / 1000"

subsection \<open>The bus object, the driver object and the trace\<close>

text \<open>
  The I2C object is an external collaborator: \<open>readfrom_mem\<close> and \<open>writeto_mem\<close> take
  the state behind the bus, the device address, the register address and the byte count
  or the bytes, and either succeed or fail with an error number, which the caller sees
  as \<open>OSError\<close>. \<open>elapse\<close> says what becomes of that state while the caller sleeps
  for the given number of milliseconds.
\<close>

record 's I2C =
  readfrom_mem :: "'s \<Rightarrow> nat \<Rightarrow> nat \<Rightarrow> nat \<Rightarrow> (nat + byte list) \<times> 's"
  writeto_mem :: "'s \<Rightarrow> nat \<Rightarrow> nat \<Rightarrow> byte list \<Rightarrow> nat option \<times> 's"
  elapse :: "'s \<Rightarrow> nat \<Rightarrow> 's"

text \<open>The attributes \<open>__init__\<close> stores on the object.\<close>

record 's MAX17262 =
  i2c :: "'s I2C"
  address :: nat
  is_r_type :: bool

datatype event =
    ReadMem nat nat nat "nat + byte list"
  | WriteMem nat nat "byte list"
  | SleepMs nat

record 's state =
  self :: "'s MAX17262"
  dev :: 's
  trace :: "event list"

text \<open>\<open>self.i2c.readfrom_mem(self.address, mem_addr, n)\<close>, recorded with its result.\<close>

definition i2c_readfrom_mem :: "nat \<Rightarrow> nat \<Rightarrow> 's state \<Rightarrow> (exn + byte list) \<times> 's state" where
  "i2c_readfrom_mem mem_addr n st =
     (case readfrom_mem (i2c (self st)) (dev st) (address (self st)) mem_addr n of
        (r, d) \<Rightarrow>
          (case r of Inl errno \<Rightarrow> Inl (OSError errno) | Inr data \<Rightarrow> Inr data,
           st\<lparr>dev := d, trace := trace st @ [ReadMem (address (self st)) mem_addr n r]\<rparr>))"

text \<open>\<open>self.i2c.writeto_mem(self.address, mem_addr, data)\<close>.\<close>

definition i2c_writeto_mem :: "nat \<Rightarrow> byte list \<Rightarrow> 's state \<Rightarrow> (exn + unit) \<times> 's state" where
  "i2c_writeto_mem mem_addr data st =
     (case writeto_mem (i2c (self st)) (dev st) (address (self st)) mem_addr data of
        (r, d) \<Rightarrow>
          (case r of Some errno \<Rightarrow> Inl (OSError errno) | None \<Rightarrow> Inr (),
           st\<lparr>dev := d, trace := trace st @ [WriteMem (address (self st)) mem_addr data]\<rparr>))"

definition sleep_ms :: "nat \<Rightarrow> 's state \<Rightarrow> 's state" where
  "sleep_ms n st =
     st\<lparr>dev := elapse (i2c (self st)) (dev st) n, trace := trace st @ [SleepMs n]\<rparr>"

subsection \<open>Raw register reads\<close>

definition read_int16 :: "nat \<Rightarrow> 's state \<Rightarrow> (exn + int) \<times> 's state" where
  "read_int16 mem_addr st =
     (case i2c_readfrom_mem mem_addr 2 st of
        (Inl e, st') \<Rightarrow> (Inl e, st')
      | (Inr data, st') \<Rightarrow> (unpack LE_h data, st'))"

definition read_uint16 :: "nat \<Rightarrow> 's state \<Rightarrow> (exn + int) \<times> 's state" where
  "read_uint16 mem_addr st =
     (case i2c_readfrom_mem mem_addr 2 st of
        (Inl e, st') \<Rightarrow> (Inl e, st')
      | (Inr data, st') \<Rightarrow> (unpack LE_H data, st'))"

subsection \<open>Construction\<close>

text \<open>
  Both loops of \<open>__init__\<close> have the shape
  \<open>while self.read_uint16(reg) & bits: sleep_ms(10)\<close>, with no bound on the number of
  rounds. A run that never leaves the loop is the value \<open>None\<close>.
\<close>

partial_function (option) wait_while ::
  "nat \<Rightarrow> int \<Rightarrow> 's state \<Rightarrow> ((exn + unit) \<times> 's state) option" where
  "wait_while reg bits st =
     (case read_uint16 reg st of
        (Inl e, st1) \<Rightarrow> Some (Inl e, st1)
      | (Inr v, st1) \<Rightarrow>
          if v AND bits \<noteq> 0 then wait_while reg bits (sleep_ms 10 st1)
          else Some (Inr (), st1))"

text \<open>
  Lines 68 to 83: scale the two parameters, write them, then write the model
  configuration. The argument of each \<open>writeto_mem\<close> is packed before the call.
\<close>

definition configure :: "rat \<Rightarrow> rat \<Rightarrow> bool \<Rightarrow> bool \<Rightarrow> 's state \<Rightarrow> (exn + unit) \<times> 's state" where
  "configure capacity terminationCurrent lowVoltage r_type st =
     (let cap = (if r_type then int_py (capacity / LSB_CAPACITY_R)
                 else int_py (capacity / LSB_CAPACITY_H));
          cur = (if r_type then int_py (terminationCurrent / LSB_CURRENT_R)
                 else int_py (terminationCurrent / LSB_CURRENT_H))
      in case pack LE_H cap of
           Inl e \<Rightarrow> (Inl e, st)
         | Inr capb \<Rightarrow>
            (case i2c_writeto_mem REG_DesignCap capb st of
               (Inl e, st1) \<Rightarrow> (Inl e, st1)
             | (Inr _, st1) \<Rightarrow>
                (case pack LE_h cur of
                   Inl e \<Rightarrow> (Inl e, st1)
                 | Inr curb \<Rightarrow>
                    (case i2c_writeto_mem REG_IChgTerm curb st1 of
                       (Inl e, st2) \<Rightarrow> (Inl e, st2)
                     | (Inr _, st2) \<Rightarrow>
                        (if lowVoltage then i2c_writeto_mem REG_ModelCfg [0x00, 0x80] st2
                         else i2c_writeto_mem REG_ModelCfg [0x00, 0x84] st2)))))"

text \<open>
  Lines 59 to 61: the object with its three attributes, over the state \<open>d0\<close> the bus
  is in when the constructor is called; the trace starts empty.
\<close>

definition new_object :: "'s I2C \<Rightarrow> nat \<Rightarrow> bool \<Rightarrow> 's \<Rightarrow> 's state" where
  "new_object bus addr r_type d0 =
     \<lparr>self = \<lparr>i2c = bus, address = addr, is_r_type = r_type\<rparr>, dev = d0, trace = []\<rparr>"

text \<open>
  \<open>__init__(self, i2c, capacity, terminationCurrent, lowVoltage, address, is_r_type)\<close>.
  The result is \<open>None\<close> when a wait never ends, and otherwise the exception raised or
  \<open>()\<close>, with the state reached.
\<close>

definition init ::
  "'s I2C \<Rightarrow> rat \<Rightarrow> rat \<Rightarrow> bool \<Rightarrow> nat \<Rightarrow> bool \<Rightarrow> 's \<Rightarrow> ((exn + unit) \<times> 's state) option" where
  "init bus capacity terminationCurrent lowVoltage addr r_type d0 =
     (let st0 = new_object bus addr r_type d0
      in case wait_while REG_FStat 0x0001 st0 of
           None \<Rightarrow> None
         | Some (Inl e, st1) \<Rightarrow> Some (Inl e, st1)
         | Some (Inr _, st1) \<Rightarrow>
            (case configure capacity terminationCurrent lowVoltage r_type st1 of
               (Inl e, st2) \<Rightarrow> Some (Inl e, st2)
             | (Inr _, st2) \<Rightarrow> wait_while REG_ModelCfg 0x8000 st2))"

subsection \<open>Accessors\<close>

definition state_of_charge :: "'s state \<Rightarrow> (exn + rat) \<times> 's state" where
  "state_of_charge st =
     (case read_uint16 REG_RepSOC st of
        (Inl e, st') \<Rightarrow> (Inl e, st')
      | (Inr v, st') \<Rightarrow> (Inr (of_int v * LSB_PERCENTAGE), st'))"

definition time_to_empty :: "'s state \<Rightarrow> (exn + rat) \<times> 's state" where
  "time_to_empty st =
     (case read_uint16 REG_TTE st of
        (Inl e, st') \<Rightarrow> (Inl e, st')
      | (Inr v, st') \<Rightarrow> (Inr (of_int v * LSB_TIME), st'))"

definition time_to_full :: "'s state \<Rightarrow> (exn + rat) \<times> 's state" where
  "time_to_full st =
     (case read_uint16 REG_TTF st of
        (Inl e, st') \<Rightarrow> (Inl e, st')
      | (Inr v, st') \<Rightarrow> (Inr (of_int v * LSB_TIME), st'))"

definition current :: "'s state \<Rightarrow> (exn + rat) \<times> 's state" where
  "current st =
     (if is_r_type (self st) then
        (case read_int16 REG_Current st of
           (Inl e, st') \<Rightarrow> (Inl e, st')
         | (Inr v, st') \<Rightarrow> (Inr (of_int v * LSB_CURRENT_R), st'))
      else
        (case read_int16 REG_Current st of
           (Inl e, st') \<Rightarrow> (Inl e, st')
         | (Inr v, st') \<Rightarrow> (Inr (of_int v * LSB_CURRENT_H), st')))"

definition voltage :: "'s state \<Rightarrow> (exn + rat) \<times> 's state" where
  "voltage st =
     (case read_uint16 REG_VCell st of
        (Inl e, st') \<Rightarrow> (Inl e, st')
      | (Inr v, st') \<Rightarrow> (Inr (of_int v * LSB_VOLTAGE), st'))"

definition capacity :: "'s state \<Rightarrow> (exn + rat) \<times> 's state" where
  "capacity st =
     (if is_r_type (self st) then
        (case read_uint16 REG_RepCap st of
           (Inl e, st') \<Rightarrow> (Inl e, st')
         | (Inr v, st') \<Rightarrow> (Inr (of_int v * LSB_CAPACITY_R), st'))
      else
        (case read_uint16 REG_RepCap st of
           (Inl e, st') \<Rightarrow> (Inl e, st')
         | (Inr v, st') \<Rightarrow> (Inr (of_int v * LSB_CAPACITY_H), st')))"

definition temperature :: "'s state \<Rightarrow> (exn + rat) \<times> 's state" where
  "temperature st =
     (case read_int16 REG_DieTemp st of
        (Inl e, st') \<Rightarrow> (Inl e, st')
      | (Inr v, st') \<Rightarrow> (Inr (of_int v * LSB_TEMPERATURE), st'))"

text \<open>The seven properties of the class, selected by name.\<close>

datatype quantity =
    StateOfCharge | TimeToEmpty | TimeToFull | Current | Voltage | RemainingCapacity
  | DieTemperature

fun accessor :: "quantity \<Rightarrow> 's state \<Rightarrow> (exn + rat) \<times> 's state" where
  "accessor StateOfCharge = state_of_charge"
| "accessor TimeToEmpty = time_to_empty"
| "accessor TimeToFull = time_to_full"
| "accessor Current = current"
| "accessor Voltage = voltage"
| "accessor RemainingCapacity = capacity"
| "accessor DieTemperature = temperature"

subsection \<open>The scale-factor table of the specification\<close>

text \<open>
  The table of the specification, row by row: the register of each quantity, whether its
  raw value is read signed, and the factor for the R-type (\<open>True\<close>) and the H-type
  (\<open>False\<close>). It is written from the specification, to be compared with the accessors.
\<close>

fun spec_register :: "quantity \<Rightarrow> nat" where
  "spec_register StateOfCharge = 0x06"
| "spec_register TimeToEmpty = 0x11"
| "spec_register TimeToFull = 0x20"
| "spec_register Current = 0x0A"
| "spec_register Voltage = 0x09"
| "spec_register RemainingCapacity = 0x05"
| "spec_register DieTemperature = 0x34"



subsection \<open>Reading a trace\<close>

fun is_write :: "event \<Rightarrow> bool" where
  "is_write (WriteMem a reg data) = True"
| "is_write e = False"

definition writes :: "event list \<Rightarrow> event list" where
  "writes tr = filter is_write tr"

text \<open>The byte strings written to one register, in order.\<close>

fun writes_to :: "nat \<Rightarrow> event list \<Rightarrow> byte list list" where
  "writes_to reg [] = []"
| "writes_to reg (WriteMem a reg' data # es) =
     (if reg' = reg then data # writes_to reg es else writes_to reg es)"
| "writes_to reg (e # es) = writes_to reg es"

text \<open>The state after one 2-byte read of a register, whatever the read returns.\<close>

definition after_read :: "nat \<Rightarrow> 's state \<Rightarrow> 's state" where
  "after_read reg st =
     (case readfrom_mem (i2c (self st)) (dev st) (address (self st)) reg 2 of
        (r, d) \<Rightarrow> st\<lparr>dev := d, trace := trace st @ [ReadMem (address (self st)) reg 2 r]\<rparr>)"

text \<open>The state after one write to a register, whatever the write returns.\<close>

definition after_write :: "nat \<Rightarrow> byte list \<Rightarrow> 's state \<Rightarrow> 's state" where
  "after_write reg data st =
     (case writeto_mem (i2c (self st)) (dev st) (address (self st)) reg data of
        (r, d) \<Rightarrow> st\<lparr>dev := d, trace := trace st @ [WriteMem (address (self st)) reg data]\<rparr>)"

text \<open>A read of the flag-status register whose value has bit 0 clear.\<close>

fun ready_read :: "event \<Rightarrow> bool" where
  "ready_read (ReadMem a reg n (Inr data)) =
     (reg = REG_FStat \<and> (case unpack LE_H data of Inr v \<Rightarrow> v AND 0x0001 = 0 | Inl e \<Rightarrow> False))"
| "ready_read e = False"

text \<open>
  \<open>no_write_until_ready seen tr\<close>: along \<open>tr\<close>, every write comes after a ready read
  (\<open>seen\<close> says whether one came before \<open>tr\<close>).
\<close>

fun no_write_until_ready :: "bool \<Rightarrow> event list \<Rightarrow> bool" where
  "no_write_until_ready seen [] = True"
| "no_write_until_ready seen (e # es) =
     ((if is_write e then seen else True) \<and> no_write_until_ready (seen \<or> ready_read e) es)"

text \<open>
  The state after \<open>n\<close> rounds of a wait loop that has not ended: each round is one read
  of the register and one sleep of 10 ms.
\<close>

fun rounds :: "nat \<Rightarrow> nat \<Rightarrow> 's state \<Rightarrow> 's state" where
  "rounds 0 reg st = st"
| "rounds (Suc n) reg st = rounds n reg (sleep_ms 10 (snd (read_uint16 reg st)))"

text \<open>The read at the head of the loop returns a value with one of the bits set.\<close>

definition busy :: "nat \<Rightarrow> int \<Rightarrow> 's state \<Rightarrow> bool" where
  "busy reg bits st =
     (case fst (read_uint16 reg st) of Inr v \<Rightarrow> v AND bits \<noteq> 0 | Inl e \<Rightarrow> False)"

subsection \<open>Two simulated gauges\<close>

text \<open>
  A gauge that is busy for as many sleeps as its state says, becomes busy for one more
  sleep when the model configuration is written, and reports fixed measurements.
\<close>

definition sim_bus :: "nat I2C" where
  "sim_bus = \<lparr>
     readfrom_mem = (\<lambda>d a reg n.
        (if reg = REG_FStat then Inr [if 0 < d then 0x01 else 0x00, 0x00]
         else if reg = REG_ModelCfg then Inr [0x00, if 0 < d then 0x80 else 0x00]
         else if reg = REG_RepSOC then Inr [0x00, 0x64]
         else if reg = REG_DieTemp then Inr [0x70, 0xFE]
         else if reg = REG_RepCap then Inr [0xA8, 0x02]
         else if reg = REG_Current then Inr [0xC0, 0xFE]
         else Inr [0x10, 0x00], d)),
     writeto_mem = (\<lambda>d a reg data. (None, if reg = REG_ModelCfg then 1 else d)),
     elapse = (\<lambda>d n. d - 1)\<rparr>"

text \<open>A gauge whose every register always reads the same two bytes.\<close>

definition stuck_bus :: "byte \<Rightarrow> byte \<Rightarrow> unit I2C" where
  "stuck_bus lo hi = \<lparr>
     readfrom_mem = (\<lambda>d a reg n. (Inr [lo, hi], d)),
     writeto_mem = (\<lambda>d a reg data. (None, d)),
     elapse = (\<lambda>d n. d)\<rparr>"

section \<open>Properties\<close>

lemmas reg_defs =
  REG_DesignCap_def REG_ModelCfg_def REG_IChgTerm_def REG_FStat_def REG_RepCap_def
  REG_RepSOC_def REG_TTE_def REG_TTF_def REG_VCell_def REG_Current_def REG_DieTemp_def

lemmas lsb_defs =
  LSB_PERCENTAGE_def LSB_VOLTAGE_def LSB_TEMPERATURE_def LSB_TIME_def
  LSB_CAPACITY_R_def LSB_CAPACITY_H_def LSB_CURRENT_R_def LSB_CURRENT_H_def

subsection \<open>The codec\<close>

lemma uint_low_byte: "uint (word_of_int v :: byte) = v mod 256"
  by (simp add: uint_word_of_int)

lemma unpack_pack_H:
  "0 \<le> v \<Longrightarrow> v \<le> 65535 \<Longrightarrow> unpack LE_H [word_of_int v, word_of_int (v div 256)] = Inr v"
  by (simp add: uint_low_byte)

lemma unpack_pack_h:
  assumes "- 32768 \<le> v" and "v \<le> 32767"
  shows "unpack LE_h [word_of_int v, word_of_int (v div 256)] = Inr v"
proof -
  have m: "v mod 256 + 256 * (v div 256 mod 256) = v mod 65536"
    using zmod_zmult2_eq [of 256 v 256] by simp
  show ?thesis
  proof (cases "0 \<le> v")
    case True
    with assms have "v mod 65536 = v" by simp
    with m True assms show ?thesis by (simp add: uint_low_byte Let_def)
  next
    case False
    have "(v + 65536) mod 65536 = v + 65536"
      by (rule mod_pos_pos_trivial) (use assms False in simp_all)
    then have "v mod 65536 = v + 65536" by simp
    with m False assms show ?thesis by (simp add: uint_low_byte Let_def)
  qed
qed

text \<open>
  C6. Every value from 0 to 65535 packs with \<open>"<H"\<close> into two bytes that unpack with
  \<open>"<H"\<close> to the same value, and every value from -32768 to 32767 packs with \<open>"<h"\<close>
  into two bytes that unpack with \<open>"<h"\<close> to the same value.
\<close>

theorem codec_round_trip:
  "(0 \<le> v \<and> v \<le> 65535 \<longrightarrow>
      (\<exists>data. pack LE_H v = Inr data \<and> unpack LE_H data = Inr v)) \<and>
   (- 32768 \<le> w \<and> w \<le> 32767 \<longrightarrow>
      (\<exists>data. pack LE_h w = Inr data \<and> unpack LE_h data = Inr w))"
  using unpack_pack_H [of v] unpack_pack_h [of w] by simp

theorem codec_round_trip_witness:
  "((0::int) \<le> 43981 \<and> (43981::int) \<le> 65535) \<and>
   (\<exists>data. pack LE_H 43981 = Inr data \<and> unpack LE_H data = Inr 43981) \<and>
   (- 32768 \<le> (- 400 :: int) \<and> (- 400 :: int) \<le> 32767) \<and>
   (\<exists>data. pack LE_h (- 400) = Inr data \<and> unpack LE_h data = Inr (- 400))"
  using codec_round_trip [of 43981 "- 400"] by simp

subsection \<open>Register reads and accessors\<close>

lemma read_uint16_eq:
  "read_uint16 reg st =
     (case fst (readfrom_mem (i2c (self st)) (dev st) (address (self st)) reg 2) of
        Inl errno \<Rightarrow> Inl (OSError errno) | Inr data \<Rightarrow> unpack LE_H data,
      after_read reg st)"
  by (simp add: read_uint16_def i2c_readfrom_mem_def after_read_def split: prod.splits sum.splits)

lemma read_int16_eq:
  "read_int16 reg st =
     (case fst (readfrom_mem (i2c (self st)) (dev st) (address (self st)) reg 2) of
        Inl errno \<Rightarrow> Inl (OSError errno) | Inr data \<Rightarrow> unpack LE_h data,
      after_read reg st)"
  by (simp add: read_int16_def i2c_readfrom_mem_def after_read_def split: prod.splits sum.splits)

lemma self_after_read [simp]: "self (after_read reg st) = self st"
  by (simp add: after_read_def split: prod.splits)

lemma trace_after_read:
  "trace (after_read reg st) =
     trace st @ [ReadMem (address (self st)) reg 2
                   (fst (readfrom_mem (i2c (self st)) (dev st) (address (self st)) reg 2))]"
  by (simp add: after_read_def split: prod.splits)

lemma dev_after_read:
  "dev (after_read reg st) = snd (readfrom_mem (i2c (self st)) (dev st) (address (self st)) reg 2)"
  by (simp add: after_read_def split: prod.splits)

lemma writes_append [simp]: "writes (xs @ ys) = writes xs @ writes ys"
  by (simp add: writes_def)

lemma writes_simps [simp]:
  "writes [] = []"
  "writes (ReadMem a reg n r # es) = writes es"
  "writes (SleepMs k # es) = writes es"
  "writes (WriteMem a reg data # es) = WriteMem a reg data # writes es"
  by (simp_all add: writes_def)

lemma writes_after_read [simp]: "writes (trace (after_read reg st)) = writes (trace st)"
  by (simp add: trace_after_read)

lemma snd_accessor: "snd (accessor q st) = after_read (spec_register q) st"
  by (cases q)
     (simp_all add: state_of_charge_def time_to_empty_def time_to_full_def current_def
        voltage_def capacity_def temperature_def read_uint16_eq read_int16_eq reg_defs
        split: sum.splits)



text \<open>
  C8. Every accessor leaves the attributes of the driver as they were, adds exactly one
  event to the trace, a 2-byte read of its register, issues no write, and moves the bus
  only by that read.
\<close>

theorem accessor_frame:
  "self (snd (accessor q st)) = self st \<and>
   trace (snd (accessor q st)) =
     trace st @ [ReadMem (address (self st)) (spec_register q) 2
                   (fst (readfrom_mem (i2c (self st)) (dev st) (address (self st)) (spec_register q) 2))] \<and>
   writes (trace (snd (accessor q st))) = writes (trace st) \<and>
   dev (snd (accessor q st)) =
     snd (readfrom_mem (i2c (self st)) (dev st) (address (self st)) (spec_register q) 2)"
  by (simp add: snd_accessor trace_after_read dev_after_read)


text \<open>
  C7. When the bus returns bytes that decode unsigned to 25600 for the state-of-charge
  register, \<open>state_of_charge\<close> returns 100; when it returns bytes that decode signed to
  -400 for the die-temperature register, \<open>temperature\<close> returns -1.5625.
\<close>

theorem accessor_examples:
  "(readfrom_mem (i2c (self st)) (dev st) (address (self st)) REG_RepSOC 2 = (Inr data, d) \<and>
    unpack LE_H data = Inr 25600 \<longrightarrow> fst (state_of_charge st) = Inr 100) \<and>
   (readfrom_mem (i2c (self st)) (dev st) (address (self st)) REG_DieTemp 2 = (Inr data', d') \<and>
    unpack LE_h data' = Inr (- 400) \<longrightarrow> fst (temperature st) = Inr (- (15625 / 10000)))"
  by (simp add: state_of_charge_def temperature_def read_uint16_eq read_int16_eq lsb_defs)

theorem accessor_examples_witness:
  "(readfrom_mem sim_bus 0 0x36 REG_RepSOC 2 = (Inr [0x00, 0x64], 0) \<and>
    unpack LE_H [0x00, 0x64] = Inr 25600) \<and>
   fst (state_of_charge (new_object sim_bus 0x36 True 0)) = Inr 100 \<and>
   (readfrom_mem sim_bus 0 0x36 REG_DieTemp 2 = (Inr [0x70, 0xFE], 0) \<and>
    unpack LE_h [0x70, 0xFE] = Inr (- 400)) \<and>
   fst (temperature (new_object sim_bus 0x36 True 0)) = Inr (- (15625 / 10000))"
  using accessor_examples [of "new_object sim_bus 0x36 True 0" "[0x00, 0x64]" 0 "[0x70, 0xFE]" 0]
  by (simp add: new_object_def sim_bus_def reg_defs)

subsection \<open>Writes and sleeps\<close>


lemma self_after_write [simp]: "self (after_write reg data st) = self st"
  by (simp add: after_write_def split: prod.splits)

lemma trace_after_write [simp]:
  "trace (after_write reg data st) = trace st @ [WriteMem (address (self st)) reg data]"
  by (simp add: after_write_def split: prod.splits)

lemma self_sleep_ms [simp]: "self (sleep_ms n st) = self st"
  by (simp add: sleep_ms_def)

lemma trace_sleep_ms [simp]: "trace (sleep_ms n st) = trace st @ [SleepMs n]"
  by (simp add: sleep_ms_def)

subsection \<open>The wait loop\<close>

lemma busy_eq:
  "busy reg bits st \<longleftrightarrow> (\<exists>v. fst (read_uint16 reg st) = Inr v \<and> v AND bits \<noteq> 0)"
  by (simp add: busy_def split: sum.splits)


lemma wait_while_not_busy:
  "\<not> busy reg bits st \<Longrightarrow>
   wait_while reg bits st =
     Some (case fst (read_uint16 reg st) of Inl e \<Rightarrow> Inl e | Inr v \<Rightarrow> Inr (), after_read reg st)"
  by (subst wait_while.simps) (auto simp: busy_eq read_uint16_eq split: sum.splits)



lemma wait_while_returns_not_busy:
  "wait_while reg bits st = Some y \<Longrightarrow> \<exists>n. \<not> busy reg bits (rounds n reg st)"
proof (induction reg bits st y rule: wait_while.raw_induct [rotated 1, consumes 1, case_names step])
  case (step wait_while' reg bits st y)
  show ?case
  proof (cases "busy reg bits st")
    case False
    then have "\<not> busy reg bits (rounds 0 reg st)" by simp
    then show ?thesis by blast
  next
    case True
    with step(2) have "wait_while' reg bits (sleep_ms 10 (snd (read_uint16 reg st))) = Some y"
      by (auto simp: busy_eq read_uint16_eq split: sum.splits)
    from step(1) [OF this] obtain n where "\<not> busy reg bits (rounds (Suc n) reg st)"
      by auto
    then show ?thesis by blast
  qed
qed

lemma wait_while_diverges:
  "(\<And>n. busy reg bits (rounds n reg st)) \<Longrightarrow> wait_while reg bits st = None"
  using wait_while_returns_not_busy [of reg bits st] by (cases "wait_while reg bits st") auto

lemma self_rounds [simp]: "self (rounds n reg st) = self st"
  by (induction n arbitrary: st) (simp_all add: read_uint16_eq)

lemma writes_rounds [simp]: "writes (trace (rounds n reg st)) = writes (trace st)"
  by (induction n arbitrary: st) (simp_all add: read_uint16_eq)


subsection \<open>Traces\<close>

lemma writes_eq_Nil: "writes tr = [] \<longleftrightarrow> (\<forall>e \<in> set tr. \<not> is_write e)"
  by (simp add: writes_def filter_empty_conv)

lemma writes_to_append [simp]: "writes_to reg (xs @ ys) = writes_to reg xs @ writes_to reg ys"
  by (induction reg xs rule: writes_to.induct) simp_all


lemma nwur_True [simp]: "no_write_until_ready True tr"
  by (induction tr) simp_all




subsection \<open>Configuration\<close>





subsection \<open>Construction as a whole\<close>











lemma init_diverges:
  assumes "\<And>n. busy REG_FStat 0x0001 (rounds n REG_FStat (new_object bus addr r_type d0))"
  shows "init bus mAh uA lowVoltage addr r_type d0 = None"
  using wait_while_diverges [of REG_FStat "0x0001" "new_object bus addr r_type d0"] assms
  by (simp add: init_def Let_def)

lemma busy_always:
  assumes "\<And>d. \<exists>data d' v. readfrom_mem bus d addr REG_FStat 2 = (Inr data, d') \<and>
              unpack LE_H data = Inr v \<and> v AND 0x0001 \<noteq> 0"
  shows "busy REG_FStat 0x0001 (rounds n REG_FStat (new_object bus addr r_type d0))"
proof -
  let ?st = "rounds n REG_FStat (new_object bus addr r_type d0)"
  have s: "i2c (self ?st) = bus" "address (self ?st) = addr" by (simp_all add: new_object_def)
  from assms [of "dev ?st"] s show ?thesis by (auto simp: busy_eq read_uint16_eq)
qed

subsection \<open>Evaluating a run on a simulated gauge\<close>




subsection \<open>What construction writes\<close>




subsection \<open>Parameters out of range\<close>









subsection \<open>Encoding the two parameters\<close>





subsection \<open>The wait for the flag-status register\<close>

text \<open>
  C2, as the code has it. On every bus whose flag-status register always returns a value
  with bit 0 set, construction never returns and never raises: the first loop has no
  bound and no timeout error exists, so it polls forever.
\<close>

theorem init_never_returns:
  "(\<forall>d. \<exists>data d' v. readfrom_mem bus d addr REG_FStat 2 = (Inr data, d') \<and>
          unpack LE_H data = Inr v \<and> v AND 0x0001 \<noteq> 0) \<Longrightarrow>
   init bus mAh uA lowVoltage addr r_type d0 = None"
proof -
  assume h: "\<forall>d. \<exists>data d' v. readfrom_mem bus d addr REG_FStat 2 = (Inr data, d') \<and>
          unpack LE_H data = Inr v \<and> v AND 0x0001 \<noteq> 0"
  have "busy REG_FStat 0x0001 (rounds n REG_FStat (new_object bus addr r_type d0))" for n
    by (rule busy_always) (use h in blast)
  then show ?thesis by (rule init_diverges)
qed

theorem init_never_returns_witness:
  "(\<forall>d. \<exists>data d' v. readfrom_mem (stuck_bus 0xFF 0xFF) d 0x36 REG_FStat 2 = (Inr data, d') \<and>
          unpack LE_H data = Inr v \<and> v AND 0x0001 \<noteq> 0) \<and>
   init (stuck_bus 0xFF 0xFF) 1000 20000 False 0x36 False () = None"
proof -
  have h: "\<forall>d. \<exists>data d' v. readfrom_mem (stuck_bus 0xFF 0xFF) d 0x36 REG_FStat 2 = (Inr data, d') \<and>
          unpack LE_H data = Inr v \<and> v AND 0x0001 \<noteq> 0"
    by (simp add: stuck_bus_def)
  from init_never_returns [OF h] h show ?thesis by blast
qed

lemma stuck_bus_busy:
  "busy REG_FStat 0x0001 (rounds n REG_FStat (new_object (stuck_bus 0x01 0x00) addr r_type d0))"
  by (rule busy_always) (simp add: stuck_bus_def)

text \<open>
  On a gauge whose flag-status register always reads 0x0001, construction does not end:
  it raises nothing.
\<close>

theorem init_timeout_counterexample:
  "init (stuck_bus 0x01 0x00) 340 50000 True 0x36 True () = None"
  by (rule init_diverges) (rule stuck_bus_busy)



end
